theory Spec2Isabelle
  imports Complex_Main
begin

section \<open>JavaScript numbers\<close>

text \<open>
  The calculator of \<^verbatim>\<open>src/src/App.jsx\<close> computes with JavaScript numbers. The model
  keeps their shape and idealises their precision: a finite number is an exact real
  (\<open>Num\<close>), and the three non-finite values are separate constructors, so that a
  division by zero is visible as \<open>PosInf\<close>, \<open>NegInf\<close> or \<open>NaN\<close> instead of
  HOL's \<open>x / 0 = 0\<close>. Binary rounding and overflow of doubles are not modelled here,
  and neither is the sign of zero: every zero divisor the program can build is \<open>+0\<close>.
  Overflow is added in a later section, for the claim that it decides.
\<close>

datatype jsnum = Num real | PosInf | NegInf | NaN

instantiation jsnum :: "{plus, minus, times, divide, ord}"
begin

fun plus_jsnum :: "jsnum \<Rightarrow> jsnum \<Rightarrow> jsnum" where
  "plus_jsnum (Num a) (Num b) = Num (a + b)"
| "plus_jsnum NaN y = NaN"
| "plus_jsnum x NaN = NaN"
| "plus_jsnum PosInf NegInf = NaN"
| "plus_jsnum NegInf PosInf = NaN"
| "plus_jsnum PosInf y = PosInf"
| "plus_jsnum x PosInf = PosInf"
| "plus_jsnum NegInf y = NegInf"
| "plus_jsnum x NegInf = NegInf"

fun minus_jsnum :: "jsnum \<Rightarrow> jsnum \<Rightarrow> jsnum" where
  "minus_jsnum (Num a) (Num b) = Num (a - b)"
| "minus_jsnum NaN y = NaN"
| "minus_jsnum x NaN = NaN"
| "minus_jsnum PosInf PosInf = NaN"
| "minus_jsnum NegInf NegInf = NaN"
| "minus_jsnum PosInf y = PosInf"
| "minus_jsnum x PosInf = NegInf"
| "minus_jsnum NegInf y = NegInf"
| "minus_jsnum x NegInf = PosInf"

fun times_jsnum :: "jsnum \<Rightarrow> jsnum \<Rightarrow> jsnum" where
  "times_jsnum (Num a) (Num b) = Num (a * b)"
| "times_jsnum NaN y = NaN"
| "times_jsnum x NaN = NaN"
| "times_jsnum PosInf PosInf = PosInf"
| "times_jsnum PosInf NegInf = NegInf"
| "times_jsnum NegInf PosInf = NegInf"
| "times_jsnum NegInf NegInf = PosInf"
| "times_jsnum PosInf (Num b) = (if 0 < b then PosInf else if b < 0 then NegInf else NaN)"
| "times_jsnum NegInf (Num b) = (if 0 < b then NegInf else if b < 0 then PosInf else NaN)"
| "times_jsnum (Num a) PosInf = (if 0 < a then PosInf else if a < 0 then NegInf else NaN)"
| "times_jsnum (Num a) NegInf = (if 0 < a then NegInf else if a < 0 then PosInf else NaN)"

fun divide_jsnum :: "jsnum \<Rightarrow> jsnum \<Rightarrow> jsnum" where
  "divide_jsnum (Num a) (Num b) =
     (if b = 0 then (if 0 < a then PosInf else if a < 0 then NegInf else NaN)
      else Num (a / b))"
| "divide_jsnum NaN y = NaN"
| "divide_jsnum x NaN = NaN"
| "divide_jsnum (Num a) PosInf = Num 0"
| "divide_jsnum (Num a) NegInf = Num 0"
| "divide_jsnum PosInf (Num b) = (if b < 0 then NegInf else PosInf)"
| "divide_jsnum NegInf (Num b) = (if b < 0 then PosInf else NegInf)"
| "divide_jsnum PosInf y = NaN"
| "divide_jsnum NegInf y = NaN"

fun less_jsnum :: "jsnum \<Rightarrow> jsnum \<Rightarrow> bool" where
  "less_jsnum (Num a) (Num b) = (a < b)"
| "less_jsnum NaN y = False"
| "less_jsnum x NaN = False"
| "less_jsnum x NegInf = False"
| "less_jsnum PosInf y = False"
| "less_jsnum NegInf y = True"
| "less_jsnum x PosInf = True"

fun less_eq_jsnum :: "jsnum \<Rightarrow> jsnum \<Rightarrow> bool" where
  "less_eq_jsnum (Num a) (Num b) = (a \<le> b)"
| "less_eq_jsnum NaN y = False"
| "less_eq_jsnum x NaN = False"
| "less_eq_jsnum NegInf y = True"
| "less_eq_jsnum x PosInf = True"
| "less_eq_jsnum x NegInf = False"
| "less_eq_jsnum PosInf y = False"

instance ..

end

instantiation jsnum :: inverse
begin

definition inverse_jsnum :: "jsnum \<Rightarrow> jsnum" where
  "inverse_jsnum x = divide (Num 1) x"

instance ..

end

text \<open>\<^verbatim>\<open>Math.max(a, b)\<close>: \<open>NaN\<close> as soon as one argument is \<open>NaN\<close>.\<close>

definition Math_max :: "jsnum \<Rightarrow> jsnum \<Rightarrow> jsnum" where
  "Math_max a b = (if a = NaN \<or> b = NaN then NaN else if a < b then b else a)"

text \<open>\<^verbatim>\<open>Math.round(x)\<close> is \<open>floor (x + 0.5)\<close>, which is HOL's \<open>round\<close>.\<close>

fun Math_round :: "jsnum \<Rightarrow> jsnum" where
  "Math_round (Num a) = Num (of_int (round a))"
| "Math_round x = x"

text \<open>\<^verbatim>\<open>Math.pow(x, n)\<close> for the exponents of the program, which are counts of months
  or years.\<close>

primrec Math_pow :: "jsnum \<Rightarrow> nat \<Rightarrow> jsnum" where
  "Math_pow x 0 = Num 1"
| "Math_pow x (Suc n) = x * Math_pow x n"

section \<open>The inputs\<close>

text \<open>
  The \<^verbatim>\<open>values\<close> object of the component. The amounts and the percentages are finite
  numbers; the two lengths in years, \<^verbatim>\<open>mortgageTerm\<close> and \<^verbatim>\<open>timeHorizon\<close>, are
  whole numbers of years and may be zero.
\<close>

record inputs =
  homePrice :: real
  downPayment :: real
  mortgageRate :: real
  mortgageTerm :: nat
  homeAppreciation :: real
  initialRent :: real
  rentIncrease :: real
  investmentReturn :: real
  timeHorizon :: nat
  closingCostsPercent :: real
  sellingCostsPercent :: real
  annualOwnershipPercent :: real

text \<open>The \<^verbatim>\<open>DEFAULT_VALUES\<close> of the source.\<close>

definition DEFAULT_VALUES :: inputs where
  "DEFAULT_VALUES = \<lparr>homePrice = 500000, downPayment = 100000, mortgageRate = 6.5,
     mortgageTerm = 30, homeAppreciation = 3, initialRent = 2500, rentIncrease = 3,
     investmentReturn = 7, timeHorizon = 10, closingCostsPercent = 3,
     sellingCostsPercent = 6, annualOwnershipPercent = 1.5\<rparr>"

section \<open>The constants computed before the loop\<close>

definition loanAmount :: "inputs \<Rightarrow> jsnum" where
  "loanAmount i = Math_max (Num 0) (Num (homePrice i) - Num (downPayment i))"

definition monthlyRate :: "inputs \<Rightarrow> jsnum" where
  "monthlyRate i = Num (mortgageRate i) / Num 100 / Num 12"

definition numPayments :: "inputs \<Rightarrow> nat" where
  "numPayments i = mortgageTerm i * 12"

definition monthlyMortgage :: "inputs \<Rightarrow> jsnum" where
  "monthlyMortgage i =
     (if monthlyRate i > Num 0
      then loanAmount i * monthlyRate i * Math_pow (Num 1 + monthlyRate i) (numPayments i)
             / (Math_pow (Num 1 + monthlyRate i) (numPayments i) - Num 1)
      else loanAmount i / Num (real (numPayments i)))"

definition monthlyOwnershipExtra :: "inputs \<Rightarrow> jsnum" where
  "monthlyOwnershipExtra i =
     (Num (homePrice i) * Num (annualOwnershipPercent i)) / Num 100 / Num 12"

definition totalMonthlyOwnership :: "inputs \<Rightarrow> jsnum" where
  "totalMonthlyOwnership i = monthlyMortgage i + monthlyOwnershipExtra i"

definition closingCost :: "inputs \<Rightarrow> jsnum" where
  "closingCost i = Num (homePrice i) * (Num (closingCostsPercent i) / Num 100)"

definition years :: "inputs \<Rightarrow> nat list" where
  "years i = map (\<lambda>k. k) [0 ..< timeHorizon i + 1]"

section \<open>The year loop of \<^verbatim>\<open>src/src/App.jsx\<close>\<close>

text \<open>The variables the loop assigns, and the two arrays it pushes to.\<close>

record loop_state =
  currentRent :: jsnum
  cumulativeSavings :: jsnum
  remainingLoanBalance :: jsnum
  buyNetWorth :: "jsnum list"
  rentNetWorth :: "jsnum list"

definition init :: "inputs \<Rightarrow> loop_state" where
  "init i = \<lparr>currentRent = Num (initialRent i), cumulativeSavings = Num 0,
     remainingLoanBalance = loanAmount i, buyNetWorth = [], rentNetWorth = []\<rparr>"

definition homeValue :: "inputs \<Rightarrow> nat \<Rightarrow> jsnum" where
  "homeValue i year =
     Num (homePrice i) * Math_pow (Num 1 + Num (homeAppreciation i) / Num 100) year"

text \<open>The balance is assigned only when \<^verbatim>\<open>year > 0 && monthlyRate > 0\<close>; otherwise
  the variable keeps the value \<open>b\<close> it had.\<close>

definition newLoanBalance :: "inputs \<Rightarrow> nat \<Rightarrow> jsnum \<Rightarrow> jsnum" where
  "newLoanBalance i year b =
     (if year > 0 \<and> monthlyRate i > Num 0 then
        (let paymentsMade = year * 12;
             remainingPayments =
               Math_max (Num 0) (Num (real (numPayments i)) - Num (real paymentsMade))
         in if remainingPayments > Num 0
            then loanAmount i *
                   (Math_pow (Num 1 + monthlyRate i) (numPayments i)
                      - Math_pow (Num 1 + monthlyRate i) paymentsMade)
                   / (Math_pow (Num 1 + monthlyRate i) (numPayments i) - Num 1)
            else Num 0)
      else b)"

definition sellingCost :: "inputs \<Rightarrow> nat \<Rightarrow> jsnum" where
  "sellingCost i year =
     (if year = timeHorizon i
      then homeValue i year * (Num (sellingCostsPercent i) / Num 100) else Num 0)"

definition cumulativeOwnershipCosts :: "inputs \<Rightarrow> nat \<Rightarrow> jsnum" where
  "cumulativeOwnershipCosts i year = monthlyOwnershipExtra i * Num 12 * Num (real year)"

definition buyNet :: "inputs \<Rightarrow> nat \<Rightarrow> jsnum \<Rightarrow> jsnum" where
  "buyNet i year balance =
     homeValue i year - balance - sellingCost i year
       - (if year = 0 then closingCost i else Num 0) - cumulativeOwnershipCosts i year"

definition initialInvestment :: "inputs \<Rightarrow> jsnum" where
  "initialInvestment i = Num (downPayment i) + closingCost i"

definition investedInitial :: "inputs \<Rightarrow> nat \<Rightarrow> jsnum" where
  "investedInitial i year =
     initialInvestment i * Math_pow (Num 1 + Num (investmentReturn i) / Num 100) year"

definition yearlySavings :: "inputs \<Rightarrow> jsnum \<Rightarrow> jsnum" where
  "yearlySavings i rent =
     Math_max (Num 0) (totalMonthlyOwnership i * Num 12 - rent * Num 12)"

definition newSavings :: "inputs \<Rightarrow> nat \<Rightarrow> loop_state \<Rightarrow> jsnum" where
  "newSavings i year s =
     (if year > 0
      then (cumulativeSavings s + yearlySavings i (currentRent s))
             * (Num 1 + Num (investmentReturn i) / Num 100)
      else cumulativeSavings s)"

definition newRent :: "inputs \<Rightarrow> nat \<Rightarrow> jsnum \<Rightarrow> jsnum" where
  "newRent i year rent =
     (if year < timeHorizon i then rent * (Num 1 + Num (rentIncrease i) / Num 100)
      else rent)"

text \<open>One iteration of the \<^verbatim>\<open>for\<close> loop, in the order of the source.\<close>

definition body :: "inputs \<Rightarrow> nat \<Rightarrow> loop_state \<Rightarrow> loop_state" where
  "body i year s =
     (let balance = newLoanBalance i year (remainingLoanBalance s);
          savings = newSavings i year s
      in \<lparr>currentRent = newRent i year (currentRent s),
          cumulativeSavings = savings,
          remainingLoanBalance = balance,
          buyNetWorth = buyNetWorth s @ [Math_round (Math_max (Num 0) (buyNet i year balance))],
          rentNetWorth = rentNetWorth s @ [Math_round (investedInitial i year + savings)]\<rparr>)"

text \<open>\<^verbatim>\<open>for (let year = 0; year <= values.timeHorizon; year++)\<close>\<close>

function loop :: "inputs \<Rightarrow> nat \<Rightarrow> loop_state \<Rightarrow> loop_state" where
  "loop i year s = (if year \<le> timeHorizon i then loop i (Suc year) (body i year s) else s)"
  by pat_completeness auto
termination
  by (relation "measure (\<lambda>(i, year, s). Suc (timeHorizon i) - year)") auto

definition run :: "inputs \<Rightarrow> loop_state" where
  "run i = loop i 0 (init i)"

definition finalBuy :: "inputs \<Rightarrow> jsnum" where
  "finalBuy i = buyNetWorth (run i) ! timeHorizon i"

definition finalRent :: "inputs \<Rightarrow> jsnum" where
  "finalRent i = rentNetWorth (run i) ! timeHorizon i"

definition difference :: "inputs \<Rightarrow> jsnum" where
  "difference i = finalRent i - finalBuy i"

definition winner :: "inputs \<Rightarrow> string" where
  "winner i = (if difference i > Num 0 then ''Rent & Invest'' else ''Buy'')"

text \<open>The state of the loop when the iteration of \<open>year\<close> has finished: the
  iterations \<open>0, \<dots>, year\<close> applied in order to the initial state.\<close>

definition stateAfter :: "inputs \<Rightarrow> nat \<Rightarrow> loop_state" where
  "stateAfter i year = fold (body i) [0 ..< Suc year] (init i)"

section \<open>The year loop of the variant \<^verbatim>\<open>src/unnamed/part_002\<close>\<close>

text \<open>
  A second version of the component is in the repository as \<^verbatim>\<open>src/unnamed/part_002\<close>.
  Its constants before the loop and its initial state are those above; the loop differs
  in the balance, in the buy-side formula, in the yearly savings and in the place where
  the rent is raised. The definitions of this section carry the suffix \<open>2\<close>.
\<close>

definition newLoanBalance2 :: "inputs \<Rightarrow> nat \<Rightarrow> jsnum \<Rightarrow> jsnum" where
  "newLoanBalance2 i year b =
     (if year > 0 then
        (let paymentsMade = year * 12
         in if paymentsMade \<ge> numPayments i then Num 0
            else if monthlyRate i > Num 0
            then loanAmount i *
                   (Math_pow (Num 1 + monthlyRate i) (numPayments i)
                      - Math_pow (Num 1 + monthlyRate i) paymentsMade)
                   / (Math_pow (Num 1 + monthlyRate i) (numPayments i) - Num 1)
            else loanAmount i
                   * (Num 1 - Num (real paymentsMade) / Num (real (numPayments i))))
      else b)"

definition buyNet2 :: "inputs \<Rightarrow> nat \<Rightarrow> jsnum \<Rightarrow> jsnum" where
  "buyNet2 i year balance = homeValue i year - balance - sellingCost i year"

definition yearlySavings2 :: "inputs \<Rightarrow> jsnum \<Rightarrow> jsnum" where
  "yearlySavings2 i rent = totalMonthlyOwnership i * Num 12 - rent * Num 12"

definition newSavings2 :: "inputs \<Rightarrow> nat \<Rightarrow> loop_state \<Rightarrow> jsnum" where
  "newSavings2 i year s =
     (if year > 0
      then (cumulativeSavings s + yearlySavings2 i (currentRent s))
             * (Num 1 + Num (investmentReturn i) / Num 100)
      else cumulativeSavings s)"

definition newRent2 :: "inputs \<Rightarrow> nat \<Rightarrow> jsnum \<Rightarrow> jsnum" where
  "newRent2 i year rent =
     (if year > 0 then rent * (Num 1 + Num (rentIncrease i) / Num 100) else rent)"

definition body2 :: "inputs \<Rightarrow> nat \<Rightarrow> loop_state \<Rightarrow> loop_state" where
  "body2 i year s =
     (let balance = newLoanBalance2 i year (remainingLoanBalance s);
          savings = newSavings2 i year s
      in \<lparr>currentRent = newRent2 i year (currentRent s),
          cumulativeSavings = savings,
          remainingLoanBalance = balance,
          buyNetWorth = buyNetWorth s @ [Math_round (Math_max (Num 0) (buyNet2 i year balance))],
          rentNetWorth = rentNetWorth s @ [Math_round (investedInitial i year + savings)]\<rparr>)"

function loop2 :: "inputs \<Rightarrow> nat \<Rightarrow> loop_state \<Rightarrow> loop_state" where
  "loop2 i year s = (if year \<le> timeHorizon i then loop2 i (Suc year) (body2 i year s) else s)"
  by pat_completeness auto
termination
  by (relation "measure (\<lambda>(i, year, s). Suc (timeHorizon i) - year)") auto

definition run2 :: "inputs \<Rightarrow> loop_state" where
  "run2 i = loop2 i 0 (init i)"

definition stateAfter2 :: "inputs \<Rightarrow> nat \<Rightarrow> loop_state" where
  "stateAfter2 i year = fold (body2 i) [0 ..< Suc year] (init i)"

section \<open>The year loop of \<^verbatim>\<open>src/src/App.jsx\<close> within the range of binary64\<close>

text \<open>
  A double has a largest finite value, \<^verbatim>\<open>Number.MAX_VALUE\<close>, and a finite result of
  larger magnitude is \<open>Infinity\<close> or \<open>-Infinity\<close>. The numbers \<open>dnum\<close> add this to
  the numbers above: every operation is the operation on \<open>jsnum\<close> followed by
  \<open>overflow\<close>. The rounding of the mantissa is still not modelled. The loop of
  \<^verbatim>\<open>src/src/App.jsx\<close> is repeated here over \<open>dnum\<close>, line by line as above, with the
  suffix \<open>D\<close>; it is used where a claim is decided by a value that leaves the range.
\<close>

definition MAX_VALUE :: real where
  "MAX_VALUE = (2 ^ 53 - 1) * 2 ^ 971"

fun overflow :: "jsnum \<Rightarrow> jsnum" where
  "overflow (Num x) =
     (if MAX_VALUE < x then PosInf else if x < - MAX_VALUE then NegInf else Num x)"
| "overflow z = z"

datatype dnum = D jsnum

abbreviation dbl :: "real \<Rightarrow> dnum" where
  "dbl x \<equiv> D (Num x)"

instantiation dnum :: "{plus, minus, times, divide, ord}"
begin

fun plus_dnum :: "dnum \<Rightarrow> dnum \<Rightarrow> dnum" where
  "plus_dnum (D a) (D b) = D (overflow (a + b))"

fun minus_dnum :: "dnum \<Rightarrow> dnum \<Rightarrow> dnum" where
  "minus_dnum (D a) (D b) = D (overflow (a - b))"

fun times_dnum :: "dnum \<Rightarrow> dnum \<Rightarrow> dnum" where
  "times_dnum (D a) (D b) = D (overflow (a * b))"

fun divide_dnum :: "dnum \<Rightarrow> dnum \<Rightarrow> dnum" where
  "divide_dnum (D a) (D b) = D (overflow (a / b))"

fun less_dnum :: "dnum \<Rightarrow> dnum \<Rightarrow> bool" where
  "less_dnum (D a) (D b) = (a < b)"

fun less_eq_dnum :: "dnum \<Rightarrow> dnum \<Rightarrow> bool" where
  "less_eq_dnum (D a) (D b) = (a \<le> b)"

instance ..

end

instantiation dnum :: inverse
begin

definition inverse_dnum :: "dnum \<Rightarrow> dnum" where
  "inverse_dnum x = divide (dbl 1) x"

instance ..

end

























text \<open>The entry that the iteration of \<open>year\<close> pushes to each array.\<close>

definition buyEntry :: "inputs \<Rightarrow> nat \<Rightarrow> jsnum" where
  "buyEntry i year =
     Math_round (Math_max (Num 0) (buyNet i year (remainingLoanBalance (stateAfter i year))))"

definition rentEntry :: "inputs \<Rightarrow> nat \<Rightarrow> jsnum" where
  "rentEntry i year =
     Math_round (investedInitial i year + cumulativeSavings (stateAfter i year))"

section \<open>Basic facts\<close>

subsection \<open>The loop as a fold over the years\<close>

declare loop.simps [simp del] loop2.simps [simp del]

lemma Math_pow_Num [simp]: "Math_pow (Num a) n = Num (a ^ n)"
  by (induction n) simp_all

lemma Math_max_Num [simp]: "Math_max (Num a) (Num b) = Num (max a b)"
  by (simp add: Math_max_def max_def)

lemma monthlyRate_Num: "monthlyRate i = Num (mortgageRate i / 100 / 12)"
  by (simp add: monthlyRate_def)

lemma loanAmount_Num: "loanAmount i = Num (max 0 (homePrice i - downPayment i))"
  by (simp add: loanAmount_def)

lemma loop_fold: "loop i year s = fold (body i) [year ..< Suc (timeHorizon i)] s"
proof (induction i year s rule: loop.induct)
  case (1 i year s)
  show ?case
  proof (cases "year \<le> timeHorizon i")
    case True
    then have "[year ..< Suc (timeHorizon i)] = year # [Suc year ..< Suc (timeHorizon i)]"
      by (simp add: upt_conv_Cons)
    with True "1.IH" show ?thesis by (simp add: loop.simps [of i year s])
  next
    case False
    then show ?thesis by (simp add: loop.simps [of i year s])
  qed
qed

lemma loop2_fold: "loop2 i year s = fold (body2 i) [year ..< Suc (timeHorizon i)] s"
proof (induction i year s rule: loop2.induct)
  case (1 i year s)
  show ?case
  proof (cases "year \<le> timeHorizon i")
    case True
    then have "[year ..< Suc (timeHorizon i)] = year # [Suc year ..< Suc (timeHorizon i)]"
      by (simp add: upt_conv_Cons)
    with True "1.IH" show ?thesis by (simp add: loop2.simps [of i year s])
  next
    case False
    then show ?thesis by (simp add: loop2.simps [of i year s])
  qed
qed

lemma stateAfter_0: "stateAfter i 0 = body i 0 (init i)"
  by (simp add: stateAfter_def)

lemma stateAfter_Suc: "stateAfter i (Suc y) = body i (Suc y) (stateAfter i y)"
  by (simp add: stateAfter_def)

lemma run_stateAfter: "run i = stateAfter i (timeHorizon i)"
  by (simp add: run_def stateAfter_def loop_fold)

lemma run_through:
  assumes "y \<le> timeHorizon i"
  shows "run i = loop i (Suc y) (stateAfter i y)"
proof -
  from assms have "[0 ..< Suc (timeHorizon i)] = [0 ..< Suc y] @ [Suc y ..< Suc (timeHorizon i)]"
    by (metis Suc_le_mono le0 upt_add_eq_append le_Suc_ex)
  then show ?thesis
    by (simp add: run_def stateAfter_def loop_fold del: upt_Suc)
qed

lemma stateAfter2_0: "stateAfter2 i 0 = body2 i 0 (init i)"
  by (simp add: stateAfter2_def)

lemma stateAfter2_Suc: "stateAfter2 i (Suc y) = body2 i (Suc y) (stateAfter2 i y)"
  by (simp add: stateAfter2_def)

lemma run2_stateAfter2: "run2 i = stateAfter2 i (timeHorizon i)"
  by (simp add: run2_def stateAfter2_def loop2_fold)

subsection \<open>What the loop has assigned when a year is finished\<close>

lemma buyNetWorth_stateAfter:
  "buyNetWorth (stateAfter i y) = map (buyEntry i) [0 ..< Suc y]"
proof (induction y)
  case 0
  show ?case by (simp add: stateAfter_0 body_def init_def buyEntry_def Let_def)
next
  case (Suc y)
  have "buyNetWorth (stateAfter i (Suc y)) = buyNetWorth (stateAfter i y) @ [buyEntry i (Suc y)]"
    by (simp add: stateAfter_Suc [of i y] body_def buyEntry_def Let_def)
  with Suc show ?case by simp
qed

lemma rentNetWorth_stateAfter:
  "rentNetWorth (stateAfter i y) = map (rentEntry i) [0 ..< Suc y]"
proof (induction y)
  case 0
  show ?case by (simp add: stateAfter_0 body_def init_def rentEntry_def Let_def)
next
  case (Suc y)
  have "rentNetWorth (stateAfter i (Suc y)) = rentNetWorth (stateAfter i y) @ [rentEntry i (Suc y)]"
    by (simp add: stateAfter_Suc [of i y] body_def rentEntry_def Let_def)
  with Suc show ?case by simp
qed

lemma remainingLoanBalance_stateAfter:
  "remainingLoanBalance (stateAfter i y) = newLoanBalance i y (loanAmount i)"
proof (induction y)
  case 0
  show ?case by (simp add: stateAfter_0 body_def init_def newLoanBalance_def Let_def)
next
  case (Suc y)
  then show ?case
    by (simp add: stateAfter_Suc [of i y] body_def newLoanBalance_def Let_def)
qed

lemma currentRent_stateAfter:
  "y < timeHorizon i \<Longrightarrow>
     currentRent (stateAfter i y) = Num (initialRent i * (1 + rentIncrease i / 100) ^ Suc y)"
proof (induction y)
  case 0
  then show ?case by (simp add: stateAfter_0 body_def init_def newRent_def Let_def)
next
  case (Suc y)
  then show ?case
    by (simp add: stateAfter_Suc [of i y] body_def newRent_def Let_def)
qed

lemma currentRent_stateAfter_min:
  "currentRent (stateAfter i y)
     = Num (initialRent i * (1 + rentIncrease i / 100) ^ min (Suc y) (timeHorizon i))"
proof (induction y)
  case 0
  show ?case by (cases "timeHorizon i") (simp_all add: stateAfter_0 body_def init_def newRent_def Let_def)
next
  case (Suc y)
  show ?case
  proof (cases "Suc y < timeHorizon i")
    case True
    then have "min (Suc (Suc y)) (timeHorizon i) = Suc (Suc y)" "min (Suc y) (timeHorizon i) = Suc y"
      by simp_all
    with True Suc show ?thesis
      by (simp add: stateAfter_Suc [of i y] body_def newRent_def Let_def)
  next
    case False
    then have "min (Suc (Suc y)) (timeHorizon i) = timeHorizon i" "min (Suc y) (timeHorizon i) = timeHorizon i"
      by simp_all
    with False Suc show ?thesis
      by (simp add: stateAfter_Suc [of i y] body_def newRent_def Let_def)
  qed
qed

subsection \<open>Finite values\<close>

text \<open>Over exact reals, apart from the monthly payment, every quantity of the loop is a
  finite number. The
  two divisions that are not by a literal are the one of the balance, whose divisor is
  positive on its branch, and the one of the monthly payment, whose divisor is zero
  exactly when the term is zero.\<close>

lemma homeValue_Num: "homeValue i y = Num (homePrice i * (1 + homeAppreciation i / 100) ^ y)"
  by (simp add: homeValue_def)

lemma sellingCost_Num:
  "sellingCost i y = Num (if y = timeHorizon i
     then homePrice i * (1 + homeAppreciation i / 100) ^ y * (sellingCostsPercent i / 100) else 0)"
  by (simp add: sellingCost_def homeValue_Num)

lemma closingCost_Num: "closingCost i = Num (homePrice i * (closingCostsPercent i / 100))"
  by (simp add: closingCost_def)

lemma monthlyOwnershipExtra_Num:
  "monthlyOwnershipExtra i = Num (homePrice i * annualOwnershipPercent i / 100 / 12)"
  by (simp add: monthlyOwnershipExtra_def)

lemma cumulativeOwnershipCosts_Num:
  "cumulativeOwnershipCosts i y = Num (homePrice i * annualOwnershipPercent i / 100 / 12 * 12 * real y)"
  by (simp add: cumulativeOwnershipCosts_def monthlyOwnershipExtra_Num)

lemma investedInitial_Num:
  "investedInitial i y = Num ((downPayment i + homePrice i * (closingCostsPercent i / 100))
      * (1 + investmentReturn i / 100) ^ y)"
  by (simp add: investedInitial_def initialInvestment_def closingCost_Num)

lemma growth_denominator_pos:
  fixes r :: real
  assumes "0 < r" "0 < n"
  shows "0 < (1 + r) ^ n - 1"
proof -
  from assms have "1 < (1 + r) ^ n" by (simp add: one_less_power)
  then show ?thesis by simp
qed



lemma remainingPayments_pos:
  "(Math_max (Num 0) (Num (real n) - Num (real p)) > Num 0) = (p < n)"
  by (simp add: less_max_iff_disj)

lemma Num_divide: "b \<noteq> 0 \<Longrightarrow> Num a / Num b = Num (a / b)"
  by simp

lemma newLoanBalance_Num:
  "newLoanBalance i y (loanAmount i) =
     Num (if 0 < y \<and> 0 < mortgageRate i
          then (if y * 12 < numPayments i
                then max 0 (homePrice i - downPayment i)
                       * ((1 + mortgageRate i / 100 / 12) ^ numPayments i
                            - (1 + mortgageRate i / 100 / 12) ^ (y * 12))
                       / ((1 + mortgageRate i / 100 / 12) ^ numPayments i - 1)
                else 0)
          else max 0 (homePrice i - downPayment i))"
proof (cases "0 < y \<and> 0 < mortgageRate i")
  case False
  then have "(0 < y \<and> monthlyRate i > Num 0) = False"
    by (simp add: monthlyRate_Num)
  then have "newLoanBalance i y (loanAmount i) = loanAmount i"
    unfolding newLoanBalance_def by (simp only: if_False)
  with False show ?thesis
    by (auto simp add: loanAmount_Num)
next
  case True
  then have guard: "0 < y \<and> monthlyRate i > Num 0"
    by (simp add: monthlyRate_Num)
  show ?thesis
  proof (cases "y * 12 < numPayments i")
    case False
    with guard have "newLoanBalance i y (loanAmount i) = Num 0"
      unfolding newLoanBalance_def Let_def by (simp add: less_max_iff_disj)
    with True False show ?thesis by simp
  next
    case lt: True
    from True have r: "0 < mortgageRate i / 100 / 12" by simp
    from lt have n: "0 < numPayments i" by simp
    have d: "(1 + mortgageRate i / 100 / 12) ^ numPayments i - 1 \<noteq> 0"
      using growth_denominator_pos [OF r n] by simp
    from guard lt have "newLoanBalance i y (loanAmount i) =
        loanAmount i *
           (Math_pow (Num 1 + monthlyRate i) (numPayments i)
              - Math_pow (Num 1 + monthlyRate i) (y * 12))
           / (Math_pow (Num 1 + monthlyRate i) (numPayments i) - Num 1)"
      unfolding newLoanBalance_def Let_def by (simp add: less_max_iff_disj)
    also have "\<dots> = Num (max 0 (homePrice i - downPayment i)
                       * ((1 + mortgageRate i / 100 / 12) ^ numPayments i
                            - (1 + mortgageRate i / 100 / 12) ^ (y * 12))
                       / ((1 + mortgageRate i / 100 / 12) ^ numPayments i - 1))"
      by (simp only: monthlyRate_Num loanAmount_Num plus_jsnum.simps Math_pow_Num
          minus_jsnum.simps times_jsnum.simps Num_divide [OF d])
    finally show ?thesis using True lt by simp
  qed
qed


lemma monthlyMortgage_no_term:
  assumes "mortgageTerm i = 0"
  shows "monthlyMortgage i = (if downPayment i < homePrice i then PosInf else NaN)"
proof (cases "downPayment i < homePrice i")
  case True
  then have L: "max 0 (homePrice i - downPayment i) = homePrice i - downPayment i"
    "0 < homePrice i - downPayment i" by simp_all
  show ?thesis
  proof (cases "0 < mortgageRate i")
    case r: True
    with L have "0 < (homePrice i - downPayment i) * (mortgageRate i / 100 / 12)" by simp
    with assms True r L show ?thesis
      by (simp add: monthlyMortgage_def monthlyRate_Num loanAmount_Num numPayments_def)
  next
    case False
    with assms True L show ?thesis
      by (simp add: monthlyMortgage_def monthlyRate_Num loanAmount_Num numPayments_def)
  qed
next
  case False
  then have L: "max 0 (homePrice i - downPayment i) = 0" by simp
  with assms False show ?thesis
    by (simp add: monthlyMortgage_def monthlyRate_Num loanAmount_Num numPayments_def)
qed

lemma monthlyMortgage_term:
  assumes "0 < mortgageTerm i"
  shows "monthlyMortgage i =
     (if 0 < mortgageRate i
      then Num (max 0 (homePrice i - downPayment i) * (mortgageRate i / 100 / 12)
                  * (1 + mortgageRate i / 100 / 12) ^ (mortgageTerm i * 12)
                  / ((1 + mortgageRate i / 100 / 12) ^ (mortgageTerm i * 12) - 1))
      else Num (max 0 (homePrice i - downPayment i) / real (mortgageTerm i * 12)))"
proof (cases "0 < mortgageRate i")
  case True
  then have r: "0 < mortgageRate i / 100 / 12" by simp
  from assms have n: "0 < mortgageTerm i * 12" by simp
  have d: "(1 + mortgageRate i / 100 / 12) ^ (mortgageTerm i * 12) - 1 \<noteq> 0"
    using growth_denominator_pos [OF r n] by simp
  from r have "monthlyMortgage i =
      loanAmount i * monthlyRate i * Math_pow (Num 1 + monthlyRate i) (numPayments i)
             / (Math_pow (Num 1 + monthlyRate i) (numPayments i) - Num 1)"
    by (simp add: monthlyMortgage_def monthlyRate_Num)
  also have "\<dots> = Num (max 0 (homePrice i - downPayment i) * (mortgageRate i / 100 / 12)
                  * (1 + mortgageRate i / 100 / 12) ^ (mortgageTerm i * 12)
                  / ((1 + mortgageRate i / 100 / 12) ^ (mortgageTerm i * 12) - 1))"
    by (simp only: monthlyRate_Num loanAmount_Num numPayments_def plus_jsnum.simps Math_pow_Num
          minus_jsnum.simps times_jsnum.simps Num_divide [OF d])
  finally show ?thesis using True by simp
next
  case False
  from assms have n: "real (mortgageTerm i * 12) \<noteq> 0" by simp
  from False have "monthlyMortgage i = loanAmount i / Num (real (numPayments i))"
    by (simp add: monthlyMortgage_def monthlyRate_Num)
  also have "\<dots> = Num (max 0 (homePrice i - downPayment i) / real (mortgageTerm i * 12))"
    by (simp only: loanAmount_Num numPayments_def Num_divide [OF n])
  finally show ?thesis using False by simp
qed


subsection \<open>The entries of the two arrays\<close>

lemma length_buyNetWorth_run: "length (buyNetWorth (run i)) = timeHorizon i + 1"
  by (simp add: run_stateAfter buyNetWorth_stateAfter)

lemma length_rentNetWorth_run: "length (rentNetWorth (run i)) = timeHorizon i + 1"
  by (simp add: run_stateAfter rentNetWorth_stateAfter)

lemma buyNetWorth_run_nth:
  assumes "y \<le> timeHorizon i"
  shows "buyNetWorth (run i) ! y = buyEntry i y"
proof -
  from assms have "y < length [0 ..< Suc (timeHorizon i)]" by simp
  then have "map (buyEntry i) [0 ..< Suc (timeHorizon i)] ! y = buyEntry i ([0 ..< Suc (timeHorizon i)] ! y)"
    by (rule nth_map)
  also from assms have "[0 ..< Suc (timeHorizon i)] ! y = y"
    by (metis add_0 le_imp_less_Suc nth_upt)
  finally show ?thesis by (simp add: run_stateAfter buyNetWorth_stateAfter)
qed

lemma rentNetWorth_run_nth:
  assumes "y \<le> timeHorizon i"
  shows "rentNetWorth (run i) ! y = rentEntry i y"
proof -
  from assms have "y < length [0 ..< Suc (timeHorizon i)]" by simp
  then have "map (rentEntry i) [0 ..< Suc (timeHorizon i)] ! y = rentEntry i ([0 ..< Suc (timeHorizon i)] ! y)"
    by (rule nth_map)
  also from assms have "[0 ..< Suc (timeHorizon i)] ! y = y"
    by (metis add_0 le_imp_less_Suc nth_upt)
  finally show ?thesis by (simp add: run_stateAfter rentNetWorth_stateAfter)
qed

lemma buyNet_Num:
  "buyNet i y (Num b) =
     Num (homePrice i * (1 + homeAppreciation i / 100) ^ y - b
          - (if y = timeHorizon i
             then homePrice i * (1 + homeAppreciation i / 100) ^ y * (sellingCostsPercent i / 100)
             else 0)
          - (if y = 0 then homePrice i * (closingCostsPercent i / 100) else 0)
          - homePrice i * annualOwnershipPercent i / 100 / 12 * 12 * real y)"
  by (simp add: buyNet_def homeValue_Num sellingCost_Num closingCost_Num cumulativeOwnershipCosts_Num)

lemma buyEntry_unfold:
  "buyEntry i year =
     Math_round (Math_max (Num 0)
       (homeValue i year - remainingLoanBalance (stateAfter i year) - sellingCost i year
          - (if year = 0 then closingCost i else Num 0) - cumulativeOwnershipCosts i year))"
  by (simp add: buyEntry_def buyNet_def)

lemma one_year_loan_example:
  "buyEntry (DEFAULT_VALUES\<lparr>mortgageRate := 12, mortgageTerm := 1\<rparr>) 1 = Num 507500"
  by (simp add: buyEntry_def remainingLoanBalance_stateAfter newLoanBalance_Num buyNet_Num
        DEFAULT_VALUES_def numPayments_def)

lemma run_horizon_0:
  assumes "timeHorizon i = 0"
  shows "buyNetWorth (run i) =
           [Num (of_int (round (max 0 (homePrice i - max 0 (homePrice i - downPayment i)
              - homePrice i * (sellingCostsPercent i / 100)
              - homePrice i * (closingCostsPercent i / 100)))))]"
    and "rentNetWorth (run i) =
           [Num (of_int (round (downPayment i + homePrice i * (closingCostsPercent i / 100))))]"
proof -
  have "buyNetWorth (run i) = [buyEntry i 0]"
    by (simp add: run_stateAfter assms buyNetWorth_stateAfter)
  then show "buyNetWorth (run i) =
           [Num (of_int (round (max 0 (homePrice i - max 0 (homePrice i - downPayment i)
              - homePrice i * (sellingCostsPercent i / 100)
              - homePrice i * (closingCostsPercent i / 100)))))]"
    by (simp add: buyEntry_def remainingLoanBalance_stateAfter newLoanBalance_Num buyNet_Num assms)
  have "rentNetWorth (run i) = [rentEntry i 0]"
    by (simp add: run_stateAfter assms rentNetWorth_stateAfter)
  moreover have "cumulativeSavings (stateAfter i 0) = Num 0"
    by (simp add: stateAfter_0 body_def newSavings_def init_def Let_def)
  ultimately show "rentNetWorth (run i) =
           [Num (of_int (round (downPayment i + homePrice i * (closingCostsPercent i / 100))))]"
    by (simp add: rentEntry_def investedInitial_Num)
qed

subsection \<open>The reinvested savings and the rent\<close>

lemma cumulativeSavings_stateAfter_0: "cumulativeSavings (stateAfter i 0) = Num 0"
  by (simp add: stateAfter_0 body_def newSavings_def init_def Let_def)

lemma cumulativeSavings_stateAfter_Suc:
  "cumulativeSavings (stateAfter i (Suc y)) =
     (cumulativeSavings (stateAfter i y) + yearlySavings i (currentRent (stateAfter i y)))
       * (Num 1 + Num (investmentReturn i) / Num 100)"
  by (simp add: stateAfter_Suc [of i y] body_def newSavings_def Let_def)

lemma cumulativeSavings_stateAfter2_0: "cumulativeSavings (stateAfter2 i 0) = Num 0"
  by (simp add: stateAfter2_0 body2_def newSavings2_def init_def Let_def)

lemma cumulativeSavings_stateAfter2_Suc:
  "cumulativeSavings (stateAfter2 i (Suc y)) =
     (cumulativeSavings (stateAfter2 i y) + yearlySavings2 i (currentRent (stateAfter2 i y)))
       * (Num 1 + Num (investmentReturn i) / Num 100)"
  by (simp add: stateAfter2_Suc [of i y] body2_def newSavings2_def Let_def)

lemma currentRent_stateAfter2:
  "currentRent (stateAfter2 i y) = Num (initialRent i * (1 + rentIncrease i / 100) ^ y)"
proof (induction y)
  case 0
  show ?case by (simp add: stateAfter2_0 body2_def newRent2_def init_def Let_def)
next
  case (Suc y)
  then show ?case by (simp add: stateAfter2_Suc [of i y] body2_def newRent2_def Let_def)
qed

lemma remainingLoanBalance_stateAfter2:
  "remainingLoanBalance (stateAfter2 i y) = newLoanBalance2 i y (loanAmount i)"
proof (induction y)
  case 0
  show ?case by (simp add: stateAfter2_0 body2_def newLoanBalance2_def init_def Let_def)
next
  case (Suc y)
  show ?case by (simp add: stateAfter2_Suc [of i y] body2_def newLoanBalance2_def Let_def)
qed

lemma clamp_not_negative: "\<not> Math_max (Num 0) z < Num 0"
  by (cases z) (simp_all add: Math_max_def)

lemma clamp_of_less:
  assumes "a < Num r"
  shows "Math_max (Num 0) (a - Num r) = Num 0"
  using assms by (cases a) (simp_all add: Math_max_def)

lemma totalMonthlyOwnership_example:
  "totalMonthlyOwnership (DEFAULT_VALUES\<lparr>downPayment := 140000, mortgageRate := 0\<rparr>) = Num 1625"
proof -
  have "0 < mortgageTerm (DEFAULT_VALUES\<lparr>downPayment := 140000, mortgageRate := 0\<rparr>)"
    by (simp add: DEFAULT_VALUES_def)
  from monthlyMortgage_term [OF this] show ?thesis
    by (simp add: totalMonthlyOwnership_def monthlyOwnershipExtra_Num DEFAULT_VALUES_def)
qed

lemma currentRent_example:
  "currentRent (stateAfter (DEFAULT_VALUES\<lparr>downPayment := 140000, mortgageRate := 0\<rparr>) 0) = Num 2575"
  by (simp add: currentRent_stateAfter_min DEFAULT_VALUES_def)

lemma currentRent2_example:
  "currentRent (stateAfter2 (DEFAULT_VALUES\<lparr>downPayment := 140000, mortgageRate := 0\<rparr>) 0) = Num 2500"
  by (simp add: currentRent_stateAfter2 DEFAULT_VALUES_def)

subsection \<open>Numbers that are not negative\<close>

lemma not_negative_add:
  "\<not> a < Num 0 \<Longrightarrow> \<not> b < Num 0 \<Longrightarrow> \<not> a + b < Num 0"
  by (cases a; cases b) simp_all

lemma not_negative_times:
  "\<not> a < Num 0 \<Longrightarrow> 0 < f \<Longrightarrow> \<not> a * Num f < Num 0"
  by (cases a) (simp_all add: not_less)

lemma not_negative_round: "\<not> a < Num 0 \<Longrightarrow> \<not> Math_round a < Num 0"
  by (cases a) (simp_all add: not_less round_def)

lemma cumulativeSavings_not_negative:
  assumes "0 \<le> investmentReturn i"
  shows "\<not> cumulativeSavings (stateAfter i y) < Num 0"
proof (induction y)
  case 0
  show ?case by (simp add: cumulativeSavings_stateAfter_0)
next
  case (Suc y)
  have f: "Num 1 + Num (investmentReturn i) / Num 100 = Num (1 + investmentReturn i / 100)"
    by simp
  from assms have pos: "0 < 1 + investmentReturn i / 100"
    by (simp add: add_pos_nonneg)
  have "\<not> yearlySavings i (currentRent (stateAfter i y)) < Num 0"
    by (simp add: yearlySavings_def clamp_not_negative)
  with Suc have "\<not> cumulativeSavings (stateAfter i y)
      + yearlySavings i (currentRent (stateAfter i y)) < Num 0"
    by (rule not_negative_add)
  then show ?case
    unfolding cumulativeSavings_stateAfter_Suc f using pos by (rule not_negative_times)
qed

lemma investedInitial_not_negative:
  assumes "0 \<le> downPayment i" "0 \<le> closingCostsPercent i" "0 \<le> homePrice i"
    "0 \<le> investmentReturn i"
  shows "\<exists>v. investedInitial i y = Num v \<and> 0 \<le> v"
proof -
  from assms have "0 \<le> downPayment i + homePrice i * (closingCostsPercent i / 100)"
    by simp
  moreover from assms have "0 \<le> (1 + investmentReturn i / 100) ^ y"
    by simp
  ultimately show ?thesis
    by (simp add: investedInitial_Num)
qed

subsection \<open>The loan balance at the end of the term\<close>

lemma balance_paid_off_at_positive_rate:
  assumes "0 < mortgageRate i" and "0 < year" and "mortgageTerm i \<le> year"
  shows "remainingLoanBalance (stateAfter i year) = Num 0"
proof -
  from assms(3) have "\<not> year * 12 < numPayments i" by (simp add: numPayments_def)
  with assms(1,2) show ?thesis
    by (simp add: remainingLoanBalance_stateAfter newLoanBalance_Num)
qed

lemma balance_never_reduced_at_zero_rate:
  assumes "mortgageRate i \<le> 0"
  shows "remainingLoanBalance (stateAfter i year) = loanAmount i"
  using assms unfolding remainingLoanBalance_stateAfter newLoanBalance_Num
  by (simp add: loanAmount_Num)

lemma balance2_paid_off:
  assumes "0 < mortgageTerm i" and "mortgageTerm i \<le> year"
  shows "remainingLoanBalance (stateAfter2 i year) = Num 0"
proof -
  from assms have "0 < year" "numPayments i \<le> year * 12" by (simp_all add: numPayments_def)
  then show ?thesis
    by (simp add: remainingLoanBalance_stateAfter2 newLoanBalance2_def)
qed

lemma balance2_linear_at_zero_rate:
  assumes "mortgageRate i = 0" and "0 < year" and "year < mortgageTerm i"
  shows "remainingLoanBalance (stateAfter2 i year)
     = Num (max 0 (homePrice i - downPayment i)
              * (1 - real (year * 12) / real (numPayments i)))"
proof -
  from assms(3) have lt: "\<not> numPayments i \<le> year * 12" and n: "real (numPayments i) \<noteq> 0"
    by (simp_all add: numPayments_def)
  from assms(1) have r: "\<not> monthlyRate i > Num 0" by (simp add: monthlyRate_Num)
  from assms(2) lt r have "remainingLoanBalance (stateAfter2 i year)
      = loanAmount i * (Num 1 - Num (real (year * 12)) / Num (real (numPayments i)))"
    by (simp add: remainingLoanBalance_stateAfter2 newLoanBalance2_def Let_def)
  also have "\<dots> = Num (max 0 (homePrice i - downPayment i)
              * (1 - real (year * 12) / real (numPayments i)))"
    by (simp only: loanAmount_Num Num_divide [OF n] minus_jsnum.simps times_jsnum.simps)
  finally show ?thesis .
qed

subsection \<open>Values that are not numbers\<close>

lemma not_negative_cases: "(\<not> a < Num 0) = (a = NaN \<or> Num 0 \<le> a)"
  by (cases a) auto

lemma plus_NaN: "x + NaN = NaN"
  by (cases x) simp_all

lemma no_term_no_loan_savings:
  "cumulativeSavings (stateAfter (DEFAULT_VALUES\<lparr>downPayment := 500000, mortgageRate := 0,
      mortgageTerm := 0, timeHorizon := 2\<rparr>) (Suc 0)) = NaN"
proof -
  let ?c = "DEFAULT_VALUES\<lparr>downPayment := 500000, mortgageRate := 0,
      mortgageTerm := 0, timeHorizon := 2\<rparr>"
  have "monthlyMortgage ?c = NaN"
    by (simp add: monthlyMortgage_no_term DEFAULT_VALUES_def)
  then have "yearlySavings ?c r = NaN" for r
    by (simp add: yearlySavings_def totalMonthlyOwnership_def Math_max_def)
  then show ?thesis
    by (simp add: cumulativeSavings_stateAfter_Suc plus_NaN)
qed

subsection \<open>The loop within the range of binary64\<close>







lemma overflow_in_range:
  "- MAX_VALUE \<le> x \<Longrightarrow> x \<le> MAX_VALUE \<Longrightarrow> overflow (Num x) = Num x"
  by simp












section \<open>The claims\<close>

text \<open>
  The theorems below speak of \<open>stateAfter i year\<close>, the values of the loop variables
  when the iteration of \<open>year\<close> has finished. By \<open>run_through\<close> the run of the
  component passes through this state for every \<open>year \<le> timeHorizon i\<close>, and by
  \<open>run_stateAfter\<close> its final state is \<open>stateAfter i (timeHorizon i)\<close>.
\<close>

text \<open>
  C1, as the code has it. For every year from \<open>0\<close> to \<open>timeHorizon\<close> the buy-side entry
  of the series is \<open>max(0, homeValue - remainingLoanBalance - sellingCost - closing
  - cumulativeOwnershipCosts)\<close> rounded to the nearest unit, where the closing term is
  the one-time closing cost \<open>homePrice \<times> closingCostsPercent / 100\<close> in year \<open>0\<close> and
  is \<open>0\<close> in every later year.
\<close>

theorem buyNetWorth_entry_formula:
  assumes "year \<le> timeHorizon i"
  shows "buyNetWorth (run i) ! year =
     Math_round (Math_max (Num 0)
       (homeValue i year - remainingLoanBalance (stateAfter i year) - sellingCost i year
          - (if year = 0 then closingCost i else Num 0) - cumulativeOwnershipCosts i year))
     \<and> closingCost i = Num (homePrice i * (closingCostsPercent i / 100))"
  using assms by (simp only: buyNetWorth_run_nth buyEntry_unfold closingCost_Num simp_thms)

theorem buyNetWorth_entry_formula_witness:
  "(1::nat) \<le> timeHorizon (DEFAULT_VALUES\<lparr>mortgageRate := 12, mortgageTerm := 1\<rparr>)
   \<and> buyNetWorth (run (DEFAULT_VALUES\<lparr>mortgageRate := 12, mortgageTerm := 1\<rparr>)) ! 1 = Num 507500"
proof -
  have h: "(1::nat) \<le> timeHorizon (DEFAULT_VALUES\<lparr>mortgageRate := 12, mortgageTerm := 1\<rparr>)"
    by (simp add: DEFAULT_VALUES_def)
  show ?thesis
    using h buyNetWorth_entry_formula [OF h]
    by (simp add: remainingLoanBalance_stateAfter newLoanBalance_Num homeValue_Num
          sellingCost_Num cumulativeOwnershipCosts_Num DEFAULT_VALUES_def
          numPayments_def)
qed

text \<open>
  The default values with a loan of one year at 12 percent: the loan is paid off when
  year \<open>1\<close> ends, and the entry of year \<open>1\<close> is \<open>515000 - 0 - 7500 = 507500\<close>.
  The formula that also subtracts the closing cost of \<open>15000\<close> in year \<open>1\<close> gives
  \<open>492500\<close>, which is not what the series holds.
\<close>

theorem closing_cost_charged_at_year_0_only:
  "buyNetWorth (run (DEFAULT_VALUES\<lparr>mortgageRate := 12, mortgageTerm := 1\<rparr>)) ! 1 \<noteq>
     Math_round (Math_max (Num 0)
       (homeValue (DEFAULT_VALUES\<lparr>mortgageRate := 12, mortgageTerm := 1\<rparr>) 1
          - remainingLoanBalance (stateAfter (DEFAULT_VALUES\<lparr>mortgageRate := 12, mortgageTerm := 1\<rparr>) 1)
          - sellingCost (DEFAULT_VALUES\<lparr>mortgageRate := 12, mortgageTerm := 1\<rparr>) 1
          - closingCost (DEFAULT_VALUES\<lparr>mortgageRate := 12, mortgageTerm := 1\<rparr>)
          - cumulativeOwnershipCosts (DEFAULT_VALUES\<lparr>mortgageRate := 12, mortgageTerm := 1\<rparr>) 1))"
proof -
  have h: "(1::nat) \<le> timeHorizon (DEFAULT_VALUES\<lparr>mortgageRate := 12, mortgageTerm := 1\<rparr>)"
    by (simp add: DEFAULT_VALUES_def)
  have "Math_round (Math_max (Num 0)
       (homeValue (DEFAULT_VALUES\<lparr>mortgageRate := 12, mortgageTerm := 1\<rparr>) 1
          - remainingLoanBalance (stateAfter (DEFAULT_VALUES\<lparr>mortgageRate := 12, mortgageTerm := 1\<rparr>) 1)
          - sellingCost (DEFAULT_VALUES\<lparr>mortgageRate := 12, mortgageTerm := 1\<rparr>) 1
          - closingCost (DEFAULT_VALUES\<lparr>mortgageRate := 12, mortgageTerm := 1\<rparr>)
          - cumulativeOwnershipCosts (DEFAULT_VALUES\<lparr>mortgageRate := 12, mortgageTerm := 1\<rparr>) 1)) = Num 492500"
    by (simp add: remainingLoanBalance_stateAfter newLoanBalance_Num homeValue_Num
          sellingCost_Num closingCost_Num cumulativeOwnershipCosts_Num DEFAULT_VALUES_def
          numPayments_def)
  moreover have "buyNetWorth (run (DEFAULT_VALUES\<lparr>mortgageRate := 12, mortgageTerm := 1\<rparr>)) ! 1 = Num 507500"
    by (simp only: buyNetWorth_run_nth [OF h] one_year_loan_example)
  ultimately show ?thesis by (simp only: jsnum.inject)
qed

text \<open>
  C2, as the code has it. For every year \<open>y > 0\<close> of the horizon, the yearly savings
  that \<^verbatim>\<open>src/src/App.jsx\<close> adds to the reinvested total are
  \<open>max(0, totalMonthlyOwnership \<times> 12 - currentRent \<times> 12)\<close>: they are clamped at zero,
  they are never negative, and they are \<open>0\<close> when the rent exceeds the ownership cost.
  Only the variant \<^verbatim>\<open>src/unnamed/part_002\<close> adds the difference without a clamp.
\<close>

theorem yearlySavings_clamped_in_App_only:
  assumes "0 < year" and "year \<le> timeHorizon i"
  shows "cumulativeSavings (stateAfter i year) =
           (cumulativeSavings (stateAfter i (year - 1))
              + Math_max (Num 0)
                  (totalMonthlyOwnership i * Num 12 - currentRent (stateAfter i (year - 1)) * Num 12))
             * (Num 1 + Num (investmentReturn i) / Num 100)
     \<and> \<not> Math_max (Num 0)
           (totalMonthlyOwnership i * Num 12 - currentRent (stateAfter i (year - 1)) * Num 12)
         < Num 0
     \<and> (totalMonthlyOwnership i * Num 12 < currentRent (stateAfter i (year - 1)) * Num 12 \<longrightarrow>
          Math_max (Num 0)
            (totalMonthlyOwnership i * Num 12 - currentRent (stateAfter i (year - 1)) * Num 12)
          = Num 0)
     \<and> cumulativeSavings (stateAfter2 i year) =
           (cumulativeSavings (stateAfter2 i (year - 1))
              + (totalMonthlyOwnership i * Num 12 - currentRent (stateAfter2 i (year - 1)) * Num 12))
             * (Num 1 + Num (investmentReturn i) / Num 100)"
proof -
  from assms obtain y where y: "year = Suc y" by (cases year) simp_all
  obtain r where r: "currentRent (stateAfter i y) * Num 12 = Num r"
    by (simp add: currentRent_stateAfter_min)
  have "cumulativeSavings (stateAfter i (Suc y)) =
           (cumulativeSavings (stateAfter i y)
              + Math_max (Num 0)
                  (totalMonthlyOwnership i * Num 12 - currentRent (stateAfter i y) * Num 12))
             * (Num 1 + Num (investmentReturn i) / Num 100)"
    by (simp only: cumulativeSavings_stateAfter_Suc yearlySavings_def)
  moreover have "totalMonthlyOwnership i * Num 12 < currentRent (stateAfter i y) * Num 12 \<longrightarrow>
          Math_max (Num 0)
            (totalMonthlyOwnership i * Num 12 - currentRent (stateAfter i y) * Num 12) = Num 0"
    unfolding r using clamp_of_less by blast
  moreover have "cumulativeSavings (stateAfter2 i (Suc y)) =
           (cumulativeSavings (stateAfter2 i y)
              + (totalMonthlyOwnership i * Num 12 - currentRent (stateAfter2 i y) * Num 12))
             * (Num 1 + Num (investmentReturn i) / Num 100)"
    by (simp only: cumulativeSavings_stateAfter2_Suc yearlySavings2_def)
  ultimately show ?thesis
    using clamp_not_negative by (simp add: y)
qed

theorem yearlySavings_clamped_in_App_only_witness:
  "(0::nat) < 1
   \<and> 1 \<le> timeHorizon (DEFAULT_VALUES\<lparr>downPayment := 140000, mortgageRate := 0\<rparr>)
   \<and> totalMonthlyOwnership (DEFAULT_VALUES\<lparr>downPayment := 140000, mortgageRate := 0\<rparr>) * Num 12
       < currentRent (stateAfter (DEFAULT_VALUES\<lparr>downPayment := 140000, mortgageRate := 0\<rparr>) (1 - 1)) * Num 12
   \<and> cumulativeSavings (stateAfter (DEFAULT_VALUES\<lparr>downPayment := 140000, mortgageRate := 0\<rparr>) 1) = Num 0
   \<and> cumulativeSavings (stateAfter2 (DEFAULT_VALUES\<lparr>downPayment := 140000, mortgageRate := 0\<rparr>) 1) = Num (- 11235)"
proof -
  let ?c = "DEFAULT_VALUES\<lparr>downPayment := 140000, mortgageRate := 0\<rparr>"
  have h: "(0::nat) < 1" "1 \<le> timeHorizon ?c" by (simp_all add: DEFAULT_VALUES_def)
  have ir: "investmentReturn ?c = 7" by (simp add: DEFAULT_VALUES_def)
  show ?thesis
    using h yearlySavings_clamped_in_App_only [OF h]
    by (simp add: totalMonthlyOwnership_example currentRent_example currentRent2_example
          cumulativeSavings_stateAfter_0 cumulativeSavings_stateAfter2_0 ir)
qed

text \<open>
  With a down payment of \<open>140000\<close> and a mortgage rate of zero the ownership cost is
  \<open>1625\<close> a month and the rent of year \<open>1\<close> is \<open>2575\<close>. The unclamped difference is
  \<open>19500 - 30900\<close>, and the reinvested total of \<^verbatim>\<open>src/src/App.jsx\<close> after year \<open>1\<close>
  is \<open>0\<close>, not that negative amount with its return.
\<close>

theorem yearlySavings_floor_clamped:
  "cumulativeSavings (stateAfter (DEFAULT_VALUES\<lparr>downPayment := 140000, mortgageRate := 0\<rparr>) 1) \<noteq>
     (cumulativeSavings (stateAfter (DEFAULT_VALUES\<lparr>downPayment := 140000, mortgageRate := 0\<rparr>) 0)
        + (totalMonthlyOwnership (DEFAULT_VALUES\<lparr>downPayment := 140000, mortgageRate := 0\<rparr>) * Num 12
             - currentRent (stateAfter (DEFAULT_VALUES\<lparr>downPayment := 140000, mortgageRate := 0\<rparr>) 0) * Num 12))
       * (Num 1 + Num (investmentReturn (DEFAULT_VALUES\<lparr>downPayment := 140000, mortgageRate := 0\<rparr>)) / Num 100)"
proof -
  let ?c = "DEFAULT_VALUES\<lparr>downPayment := 140000, mortgageRate := 0\<rparr>"
  have ir: "investmentReturn ?c = 7" by (simp add: DEFAULT_VALUES_def)
  have "cumulativeSavings (stateAfter ?c (Suc 0)) = Num 0"
    by (simp add: cumulativeSavings_stateAfter_Suc cumulativeSavings_stateAfter_0 yearlySavings_def
          totalMonthlyOwnership_example currentRent_example ir)
  then show ?thesis
    by (simp add: cumulativeSavings_stateAfter_0 totalMonthlyOwnership_example currentRent_example ir)
qed

text \<open>
  C3, at a mortgage rate of zero. The default values with a rate of \<open>0\<close> and a term of
  \<open>5\<close> years: after year \<open>5\<close>, which is within the horizon of \<open>10\<close>, the balance
  of \<^verbatim>\<open>src/src/App.jsx\<close> is still the whole loan amount \<open>400000\<close>, because the
  balance is assigned only when \<^verbatim>\<open>monthlyRate > 0\<close>. The variant
  \<^verbatim>\<open>src/unnamed/part_002\<close> has the balance at \<open>0\<close> there. For a positive rate
  \<^verbatim>\<open>src/src/App.jsx\<close> pays the loan off as well
  (\<open>balance_paid_off_at_positive_rate\<close>).
\<close>

theorem zero_rate_balance_stays_at_loanAmount:
  "(5::nat) \<le> timeHorizon (DEFAULT_VALUES\<lparr>mortgageRate := 0, mortgageTerm := 5\<rparr>)
   \<and> remainingLoanBalance (stateAfter (DEFAULT_VALUES\<lparr>mortgageRate := 0, mortgageTerm := 5\<rparr>) 5)
       = Num 400000
   \<and> remainingLoanBalance (stateAfter2 (DEFAULT_VALUES\<lparr>mortgageRate := 0, mortgageTerm := 5\<rparr>) 5)
       = Num 0"
proof -
  let ?c = "DEFAULT_VALUES\<lparr>mortgageRate := 0, mortgageTerm := 5\<rparr>"
  have "mortgageRate ?c \<le> 0" by simp
  then have "remainingLoanBalance (stateAfter ?c 5) = loanAmount ?c"
    by (rule balance_never_reduced_at_zero_rate)
  moreover have "loanAmount ?c = Num 400000"
    by (simp add: loanAmount_Num DEFAULT_VALUES_def)
  moreover have "remainingLoanBalance (stateAfter2 ?c 5) = Num 0"
    by (rule balance2_paid_off) simp_all
  moreover have "(5::nat) \<le> timeHorizon ?c" by (simp add: DEFAULT_VALUES_def)
  ultimately show ?thesis by simp
qed

text \<open>
  C4. For every time horizon the result has exactly \<open>timeHorizon + 1\<close> entries: the
  array of years is \<open>0, 1, \<dots>, timeHorizon\<close>, strictly increasing, and each of the two
  net-worth arrays has one entry per year.
\<close>

theorem series_has_one_entry_per_year:
  "years i = [0 ..< timeHorizon i + 1]
   \<and> length (years i) = timeHorizon i + 1
   \<and> length (buyNetWorth (run i)) = timeHorizon i + 1
   \<and> length (rentNetWorth (run i)) = timeHorizon i + 1
   \<and> hd (years i) = 0 \<and> last (years i) = timeHorizon i
   \<and> sorted_wrt (<) (years i)"
  by (simp add: years_def length_buyNetWorth_run length_rentNetWorth_run upt_rec [of 0] del: upt_Suc)

theorem series_has_one_entry_per_year_witness:
  "years DEFAULT_VALUES = [0, 1, 2, 3, 4, 5, 6, 7, 8, 9, 10]
   \<and> length (buyNetWorth (run DEFAULT_VALUES)) = 11
   \<and> length (rentNetWorth (run DEFAULT_VALUES)) = 11"
proof -
  have "[0 ..< 11] = [0, 1, 2, 3, 4, 5, 6, 7, 8, 9, 10::nat]"
    by (simp add: upt_rec)
  with series_has_one_entry_per_year [of DEFAULT_VALUES] show ?thesis
    by (simp add: DEFAULT_VALUES_def)
qed




text \<open>
  C6, as the code has it. The monthly payment is computed without any check of the
  number of payments. When \<open>numPayments = 0\<close> the divisor of either branch is zero and
  the payment is \<open>Infinity\<close> or \<open>NaN\<close>; no error is signalled. When the rate is zero
  and \<open>numPayments > 0\<close> the payment is \<open>loanAmount / numPayments\<close>.
\<close>

theorem monthlyMortgage_unguarded:
  "(numPayments i = 0 \<longrightarrow>
       Math_pow (Num 1 + monthlyRate i) (numPayments i) - Num 1 = Num 0
     \<and> Num (real (numPayments i)) = Num 0
     \<and> (monthlyMortgage i = PosInf \<or> monthlyMortgage i = NaN))
   \<and> (mortgageRate i = 0 \<and> 0 < numPayments i \<longrightarrow>
       monthlyMortgage i = loanAmount i / Num (real (numPayments i)))"
proof -
  have "monthlyMortgage i = PosInf \<or> monthlyMortgage i = NaN" if "numPayments i = 0"
  proof -
    from that have "mortgageTerm i = 0" by (simp add: numPayments_def)
    then show ?thesis by (simp add: monthlyMortgage_no_term)
  qed
  moreover have "monthlyMortgage i = loanAmount i / Num (real (numPayments i))"
    if "mortgageRate i = 0"
    using that by (simp add: monthlyMortgage_def monthlyRate_Num)
  ultimately show ?thesis by simp
qed

theorem monthlyMortgage_unguarded_witness:
  "numPayments (DEFAULT_VALUES\<lparr>mortgageTerm := 0\<rparr>) = 0
   \<and> (monthlyMortgage (DEFAULT_VALUES\<lparr>mortgageTerm := 0\<rparr>) = PosInf
        \<or> monthlyMortgage (DEFAULT_VALUES\<lparr>mortgageTerm := 0\<rparr>) = NaN)
   \<and> mortgageRate (DEFAULT_VALUES\<lparr>mortgageRate := 0\<rparr>) = 0
   \<and> 0 < numPayments (DEFAULT_VALUES\<lparr>mortgageRate := 0\<rparr>)
   \<and> monthlyMortgage (DEFAULT_VALUES\<lparr>mortgageRate := 0\<rparr>)
       = loanAmount (DEFAULT_VALUES\<lparr>mortgageRate := 0\<rparr>)
           / Num (real (numPayments (DEFAULT_VALUES\<lparr>mortgageRate := 0\<rparr>)))"
proof -
  have a: "numPayments (DEFAULT_VALUES\<lparr>mortgageTerm := 0\<rparr>) = 0"
    by (simp add: numPayments_def)
  have b: "mortgageRate (DEFAULT_VALUES\<lparr>mortgageRate := 0\<rparr>) = 0
      \<and> 0 < numPayments (DEFAULT_VALUES\<lparr>mortgageRate := 0\<rparr>)"
    by (simp add: numPayments_def DEFAULT_VALUES_def)
  from a b monthlyMortgage_unguarded [of "DEFAULT_VALUES\<lparr>mortgageTerm := 0\<rparr>"]
    monthlyMortgage_unguarded [of "DEFAULT_VALUES\<lparr>mortgageRate := 0\<rparr>"]
  show ?thesis by blast
qed

text \<open>
  A term of zero years, no loan (the down payment equals the price) and a rate of zero:
  the payment is \<open>0 / 0\<close>, that is \<open>NaN\<close>.
\<close>

theorem monthlyMortgage_NaN_without_error:
  "monthlyMortgage (DEFAULT_VALUES\<lparr>downPayment := 500000, mortgageRate := 0,
      mortgageTerm := 0\<rparr>) = NaN"
  by (simp add: monthlyMortgage_no_term DEFAULT_VALUES_def)

text \<open>
  C7, as the code has it. With \<open>timeHorizon = 0\<close> the result has exactly one entry,
  for year \<open>0\<close>. Year \<open>0\<close> is then also the final year, so the buy-side entry is the
  price minus the loan amount, minus the selling cost of the final year and minus the
  closing cost, clamped at zero and rounded; there is no appreciation, no amortisation
  and no ownership cost in it. The rent-side entry is the rounded initial lump sum
  \<open>downPayment + closingCost\<close>, with no reinvested savings.
\<close>

theorem horizon_0_single_entry:
  assumes "timeHorizon i = 0"
  shows "years i = [0]
     \<and> buyNetWorth (run i) =
          [Math_round (Math_max (Num 0)
             (Num (homePrice i) - loanAmount i
                - Num (homePrice i) * (Num (sellingCostsPercent i) / Num 100)
                - closingCost i))]
     \<and> rentNetWorth (run i) = [Math_round (Num (downPayment i) + closingCost i)]"
  using assms
  by (simp add: years_def run_horizon_0 loanAmount_Num closingCost_Num)

theorem horizon_0_single_entry_witness:
  "timeHorizon (DEFAULT_VALUES\<lparr>timeHorizon := 0\<rparr>) = 0
   \<and> years (DEFAULT_VALUES\<lparr>timeHorizon := 0\<rparr>) = [0]
   \<and> buyNetWorth (run (DEFAULT_VALUES\<lparr>timeHorizon := 0\<rparr>)) = [Num 55000]
   \<and> rentNetWorth (run (DEFAULT_VALUES\<lparr>timeHorizon := 0\<rparr>)) = [Num 115000]"
  using horizon_0_single_entry [of "DEFAULT_VALUES\<lparr>timeHorizon := 0\<rparr>"]
  by (simp add: loanAmount_Num closingCost_Num DEFAULT_VALUES_def)

text \<open>
  With the default values and a horizon of zero the single buy-side entry is
  \<open>500000 - 400000 - 30000 - 15000 = 55000\<close>; deducting the closing cost alone would
  give \<open>85000\<close>.
\<close>

theorem horizon_0_selling_cost_deducted:
  "buyNetWorth (run (DEFAULT_VALUES\<lparr>timeHorizon := 0\<rparr>)) ! 0 \<noteq>
     Math_round (Math_max (Num 0)
       (homeValue (DEFAULT_VALUES\<lparr>timeHorizon := 0\<rparr>) 0
          - loanAmount (DEFAULT_VALUES\<lparr>timeHorizon := 0\<rparr>)
          - closingCost (DEFAULT_VALUES\<lparr>timeHorizon := 0\<rparr>)))"
proof -
  have "timeHorizon (DEFAULT_VALUES\<lparr>timeHorizon := 0\<rparr>) = 0" by simp
  from run_horizon_0(1) [OF this]
  have "buyNetWorth (run (DEFAULT_VALUES\<lparr>timeHorizon := 0\<rparr>)) ! 0 = Num 55000"
    by (simp add: DEFAULT_VALUES_def)
  moreover have "Math_round (Math_max (Num 0)
       (homeValue (DEFAULT_VALUES\<lparr>timeHorizon := 0\<rparr>) 0
          - loanAmount (DEFAULT_VALUES\<lparr>timeHorizon := 0\<rparr>)
          - closingCost (DEFAULT_VALUES\<lparr>timeHorizon := 0\<rparr>))) = Num 85000"
    by (simp add: homeValue_Num loanAmount_Num closingCost_Num DEFAULT_VALUES_def)
  ultimately show ?thesis by (simp only: jsnum.inject)
qed

text \<open>
  C8. \<open>finalBuy\<close> and \<open>finalRent\<close> are the entries of year \<open>timeHorizon\<close> of the two
  arrays (their last entries), \<open>difference = finalRent - finalBuy\<close>, and the winner is
  the rent scenario exactly when \<open>difference > 0\<close> and the buy scenario otherwise; a tie
  is labelled \<open>Buy\<close>.
\<close>

theorem final_values_and_winner:
  "finalBuy i = buyNetWorth (run i) ! timeHorizon i
   \<and> finalRent i = rentNetWorth (run i) ! timeHorizon i
   \<and> timeHorizon i < length (buyNetWorth (run i))
   \<and> timeHorizon i < length (rentNetWorth (run i))
   \<and> finalBuy i = last (buyNetWorth (run i))
   \<and> finalRent i = last (rentNetWorth (run i))
   \<and> difference i = finalRent i - finalBuy i
   \<and> winner i = (if difference i > Num 0 then ''Rent & Invest'' else ''Buy'')
   \<and> (difference i = Num 0 \<longrightarrow> winner i = ''Buy'')"
proof -
  have "buyNetWorth (run i) \<noteq> []" "rentNetWorth (run i) \<noteq> []"
    using length_buyNetWorth_run [of i] length_rentNetWorth_run [of i] by auto
  then have "last (buyNetWorth (run i)) = buyNetWorth (run i) ! timeHorizon i"
    and "last (rentNetWorth (run i)) = rentNetWorth (run i) ! timeHorizon i"
    by (simp_all add: last_conv_nth length_buyNetWorth_run length_rentNetWorth_run)
  then show ?thesis
    by (simp add: finalBuy_def finalRent_def difference_def winner_def
          length_buyNetWorth_run length_rentNetWorth_run)
qed

theorem final_values_and_winner_witness:
  "difference (DEFAULT_VALUES\<lparr>homePrice := 100000, timeHorizon := 0,
       closingCostsPercent := 0, sellingCostsPercent := 0\<rparr>) = Num 0
   \<and> winner (DEFAULT_VALUES\<lparr>homePrice := 100000, timeHorizon := 0,
       closingCostsPercent := 0, sellingCostsPercent := 0\<rparr>) = ''Buy''"
proof -
  let ?t = "DEFAULT_VALUES\<lparr>homePrice := 100000, timeHorizon := 0,
       closingCostsPercent := 0, sellingCostsPercent := 0\<rparr>"
  have h: "timeHorizon ?t = 0" by simp
  have b: "buyNetWorth (run ?t) = [Num 100000]"
    using run_horizon_0(1) [OF h] by (simp add: DEFAULT_VALUES_def)
  have r: "rentNetWorth (run ?t) = [Num 100000]"
    using run_horizon_0(2) [OF h] by (simp add: DEFAULT_VALUES_def)
  have "difference ?t = Num 0"
    by (simp add: difference_def finalBuy_def finalRent_def b r)
  with final_values_and_winner [of ?t] show ?thesis by simp
qed

text \<open>
  C9, as the code has it. For inputs with a non-negative down payment, initial rent,
  closing-cost percentage, home price and investment return, no rent-side entry of the
  series is negative: the yearly savings are clamped at zero before they are reinvested
  and the initial lump sum is not negative. An entry is at least zero or it is \<open>NaN\<close>.
\<close>

theorem rentNetWorth_not_below_zero:
  assumes "0 \<le> downPayment i" and "0 \<le> initialRent i" and "0 \<le> closingCostsPercent i"
    and "0 \<le> homePrice i" and "0 \<le> investmentReturn i"
    and "year \<le> timeHorizon i"
  shows "\<not> rentNetWorth (run i) ! year < Num 0
     \<and> (rentNetWorth (run i) ! year = NaN \<or> Num 0 \<le> rentNetWorth (run i) ! year)"
proof -
  obtain v where v: "investedInitial i year = Num v" "0 \<le> v"
    using investedInitial_not_negative [OF assms(1,3,4,5)] by blast
  have e: "rentNetWorth (run i) ! year
      = Math_round (Num v + cumulativeSavings (stateAfter i year))"
    by (simp add: rentNetWorth_run_nth [OF assms(6)] rentEntry_def v)
  from v(2) have "\<not> Num v < Num 0" by simp
  then have "\<not> Num v + cumulativeSavings (stateAfter i year) < Num 0"
    using cumulativeSavings_not_negative [OF assms(5)] by (rule not_negative_add)
  then have never: "\<not> rentNetWorth (run i) ! year < Num 0"
    unfolding e by (rule not_negative_round)
  then show ?thesis by (simp add: not_negative_cases)
qed

theorem rentNetWorth_not_below_zero_witness:
  "0 \<le> downPayment DEFAULT_VALUES \<and> 0 \<le> initialRent DEFAULT_VALUES
   \<and> 0 \<le> closingCostsPercent DEFAULT_VALUES \<and> 0 \<le> homePrice DEFAULT_VALUES
   \<and> 0 \<le> investmentReturn DEFAULT_VALUES \<and> (3::nat) \<le> timeHorizon DEFAULT_VALUES
   \<and> \<not> rentNetWorth (run DEFAULT_VALUES) ! 3 < Num 0"
  using rentNetWorth_not_below_zero [of DEFAULT_VALUES 3]
  by (simp add: DEFAULT_VALUES_def)

text \<open>
  A term of zero years, no loan (the down payment equals the price), a rate of zero and
  a horizon of two years: the monthly payment is \<open>0 / 0\<close>, so the yearly savings of
  year \<open>1\<close> are \<open>NaN\<close> and so is the rent-side entry of year \<open>1\<close>, which is
  therefore not at least zero.
\<close>

theorem rentNetWorth_NaN_without_term_and_loan:
  "0 \<le> downPayment (DEFAULT_VALUES\<lparr>downPayment := 500000, mortgageRate := 0,
      mortgageTerm := 0, timeHorizon := 2\<rparr>)
   \<and> 0 \<le> initialRent (DEFAULT_VALUES\<lparr>downPayment := 500000, mortgageRate := 0,
      mortgageTerm := 0, timeHorizon := 2\<rparr>)
   \<and> 0 \<le> closingCostsPercent (DEFAULT_VALUES\<lparr>downPayment := 500000, mortgageRate := 0,
      mortgageTerm := 0, timeHorizon := 2\<rparr>)
   \<and> 0 \<le> homePrice (DEFAULT_VALUES\<lparr>downPayment := 500000, mortgageRate := 0,
      mortgageTerm := 0, timeHorizon := 2\<rparr>)
   \<and> 0 \<le> investmentReturn (DEFAULT_VALUES\<lparr>downPayment := 500000, mortgageRate := 0,
      mortgageTerm := 0, timeHorizon := 2\<rparr>)
   \<and> (1::nat) \<le> timeHorizon (DEFAULT_VALUES\<lparr>downPayment := 500000, mortgageRate := 0,
      mortgageTerm := 0, timeHorizon := 2\<rparr>)
   \<and> rentNetWorth (run (DEFAULT_VALUES\<lparr>downPayment := 500000, mortgageRate := 0,
      mortgageTerm := 0, timeHorizon := 2\<rparr>)) ! 1 = NaN
   \<and> \<not> Num 0 \<le> rentNetWorth (run (DEFAULT_VALUES\<lparr>downPayment := 500000, mortgageRate := 0,
      mortgageTerm := 0, timeHorizon := 2\<rparr>)) ! 1"
proof -
  let ?c = "DEFAULT_VALUES\<lparr>downPayment := 500000, mortgageRate := 0,
      mortgageTerm := 0, timeHorizon := 2\<rparr>"
  have h: "(1::nat) \<le> timeHorizon ?c" by simp
  have "rentEntry ?c (Suc 0) = NaN"
    by (simp add: rentEntry_def no_term_no_loan_savings plus_NaN)
  then have "rentNetWorth (run ?c) ! 1 = NaN"
    using rentNetWorth_run_nth [OF h] by simp
  then show ?thesis by (simp add: DEFAULT_VALUES_def)
qed

text \<open>
  C10. The rent is raised at the end of every iteration with \<open>year < timeHorizon\<close>,
  year \<open>0\<close> included. So the rent that the savings of year \<open>y \<ge> 1\<close> are computed
  from is \<open>initialRent \<times> (1 + rentIncrease / 100) ^ y\<close>: the savings of the first
  year already use a rent that has been raised once.
\<close>

theorem rent_escalated_before_first_savings:
  assumes "0 < year" and "year \<le> timeHorizon i"
  shows "currentRent (stateAfter i (year - 1))
           = Num (initialRent i * (1 + rentIncrease i / 100) ^ year)
     \<and> cumulativeSavings (stateAfter i year) =
           (cumulativeSavings (stateAfter i (year - 1))
              + yearlySavings i (Num (initialRent i * (1 + rentIncrease i / 100) ^ year)))
             * (Num 1 + Num (investmentReturn i) / Num 100)"
proof -
  from assms obtain y where y: "year = Suc y" by (cases year) simp_all
  with assms have "y < timeHorizon i" by simp
  then have "currentRent (stateAfter i y)
           = Num (initialRent i * (1 + rentIncrease i / 100) ^ Suc y)"
    by (rule currentRent_stateAfter)
  then show ?thesis
    by (simp add: y cumulativeSavings_stateAfter_Suc)
qed

theorem rent_escalated_before_first_savings_witness:
  "(0::nat) < 1
   \<and> 1 \<le> timeHorizon (DEFAULT_VALUES\<lparr>downPayment := 140000, mortgageRate := 0\<rparr>)
   \<and> currentRent (stateAfter (DEFAULT_VALUES\<lparr>downPayment := 140000, mortgageRate := 0\<rparr>) (1 - 1))
       = Num 2575
   \<and> cumulativeSavings (stateAfter (DEFAULT_VALUES\<lparr>downPayment := 140000, mortgageRate := 0\<rparr>) 1)
       = Num 0"
proof -
  let ?c = "DEFAULT_VALUES\<lparr>downPayment := 140000, mortgageRate := 0\<rparr>"
  have h: "(0::nat) < 1" "1 \<le> timeHorizon ?c" by (simp_all add: DEFAULT_VALUES_def)
  have v: "initialRent ?c = 2500" "rentIncrease ?c = 3" "investmentReturn ?c = 7"
    by (simp_all add: DEFAULT_VALUES_def)
  show ?thesis
    using h rent_escalated_before_first_savings [OF h]
    by (simp add: v yearlySavings_def totalMonthlyOwnership_example cumulativeSavings_stateAfter_0)
qed

end
